theory Spec2Isabelle
  imports Main "HOL-Library.Word" "HOL-Library.AList"
begin

section \<open>JavaScript strings\<close>

text \<open>
  A JavaScript string is a sequence of UTF-16 code units; \<open>.length\<close> counts code units and
  a regular expression without the \<open>u\<close> flag matches code unit by code unit. The values a
  user types are therefore lists of 16-bit words. Property keys and the messages the
  pages write are ASCII literals of the source and stay HOL strings.
\<close>

type_synonym code_unit = "16 word"
type_synonym js_string = "code_unit list"

text \<open>An ASCII literal of the source as a JavaScript string.\<close>

definition utf16 :: "string \<Rightarrow> js_string" where
  "utf16 s = map of_char s"

text \<open>
  ECMAScript's WhiteSpace and LineTerminator productions. \<open>String.prototype.trim\<close>
  strips both from the two ends, and the class \<open>\s\<close> is their union.
\<close>

definition is_white_space :: "code_unit \<Rightarrow> bool" where
  "is_white_space c \<longleftrightarrow>
     c = 0x0009 \<or> c = 0x000B \<or> c = 0x000C \<or> c = 0x0020 \<or> c = 0x00A0 \<or> c = 0x1680 \<or>
     (0x2000 \<le> c \<and> c \<le> 0x200A) \<or> c = 0x202F \<or> c = 0x205F \<or> c = 0x3000 \<or> c = 0xFEFF"

definition is_line_terminator :: "code_unit \<Rightarrow> bool" where
  "is_line_terminator c \<longleftrightarrow> c = 0x000A \<or> c = 0x000D \<or> c = 0x2028 \<or> c = 0x2029"

definition is_space :: "code_unit \<Rightarrow> bool" where
  "is_space c \<longleftrightarrow> is_white_space c \<or> is_line_terminator c"

definition trim :: "js_string \<Rightarrow> js_string" where
  "trim s = rev (dropWhile is_space (rev (dropWhile is_space s)))"

text \<open>Truthiness of a string, and of an optional string property (\<open>undefined\<close> is falsy).\<close>

definition truthy :: "'a list \<Rightarrow> bool" where
  "truthy s \<longleftrightarrow> s \<noteq> []"

definition truthy_opt :: "'a list option \<Rightarrow> bool" where
  "truthy_opt v = (case v of None \<Rightarrow> False | Some s \<Rightarrow> truthy s)"

section \<open>Regular expressions\<close>

text \<open>
  The fragment of regular expressions the source uses: a character class, a class under
  \<open>+\<close> or \<open>*\<close>, concatenation and positive lookahead. \<open>rmatch r s\<close> lists the remainders
  of \<open>s\<close> after every way \<open>r\<close> can match a prefix of it, longest repetition first as the
  greedy quantifiers try them; \<open>test\<close> is \<open>RegExp.prototype.test\<close> of a pattern without
  anchors and flags: some start position has a match.
\<close>

datatype regex =
    Cls "code_unit \<Rightarrow> bool"
  | PlusC "code_unit \<Rightarrow> bool"
  | StarC "code_unit \<Rightarrow> bool"
  | Seq regex regex
  | Ahead regex

primrec star_rests :: "(code_unit \<Rightarrow> bool) \<Rightarrow> js_string \<Rightarrow> js_string list" where
  "star_rests p [] = [[]]"
| "star_rests p (c # cs) = (if p c then star_rests p cs else []) @ [c # cs]"

primrec rmatch :: "regex \<Rightarrow> js_string \<Rightarrow> js_string list" where
  "rmatch (Cls p) s = (case s of [] \<Rightarrow> [] | c # cs \<Rightarrow> if p c then [cs] else [])"
| "rmatch (PlusC p) s = (case s of [] \<Rightarrow> [] | c # cs \<Rightarrow> if p c then star_rests p cs else [])"
| "rmatch (StarC p) s = star_rests p s"
| "rmatch (Seq a b) s = concat (map (rmatch b) (rmatch a s))"
| "rmatch (Ahead r) s = (if rmatch r s = [] then [] else [s])"

primrec tails :: "'a list \<Rightarrow> 'a list list" where
  "tails [] = [[]]"
| "tails (x # xs) = (x # xs) # tails xs"

definition test :: "regex \<Rightarrow> js_string \<Rightarrow> bool" where
  "test r s = list_ex (\<lambda>t. rmatch r t \<noteq> []) (tails s)"

text \<open>The character classes of the source's patterns.\<close>

definition lower :: "code_unit \<Rightarrow> bool" where \<comment> \<open>\<open>[a-z]\<close>\<close>
  "lower c \<longleftrightarrow> 0x61 \<le> c \<and> c \<le> 0x7A"

definition upper :: "code_unit \<Rightarrow> bool" where \<comment> \<open>\<open>[A-Z]\<close>\<close>
  "upper c \<longleftrightarrow> 0x41 \<le> c \<and> c \<le> 0x5A"

definition digit :: "code_unit \<Rightarrow> bool" where \<comment> \<open>\<open>[0-9]\<close> and \<open>\d\<close>\<close>
  "digit c \<longleftrightarrow> 0x30 \<le> c \<and> c \<le> 0x39"

definition symbol :: "code_unit \<Rightarrow> bool" where \<comment> \<open>\<open>[^A-Za-z0-9]\<close>\<close>
  "symbol c \<longleftrightarrow> \<not> (upper c \<or> lower c \<or> digit c)"

definition non_space :: "code_unit \<Rightarrow> bool" where \<comment> \<open>\<open>\S\<close>\<close>
  "non_space c \<longleftrightarrow> \<not> is_space c"

definition dot :: "code_unit \<Rightarrow> bool" where \<comment> \<open>\<open>.\<close> without the \<open>s\<close> flag\<close>
  "dot c \<longleftrightarrow> \<not> is_line_terminator c"

definition lit :: "char \<Rightarrow> code_unit \<Rightarrow> bool" where \<comment> \<open>a literal ASCII character\<close>
  "lit a c \<longleftrightarrow> c = of_char a"

section \<open>Password strength estimator\<close>

text \<open>\<open>calculatePasswordStrength\<close> of the password input component.\<close>

record strength =
  score :: int
  label :: string
  color :: string

definition calculatePasswordStrength :: "js_string \<Rightarrow> strength" where
  "calculatePasswordStrength password =
     (if \<not> truthy password then \<lparr>score = 0, label = [], color = []\<rparr>
      else
        let score = 0;
            score = (if length password \<ge> 8 then score + 25 else score);
            score = (if length password \<ge> 12 then score + 10 else score);
            score = (if test (Cls lower) password then score + 15 else score);
            score = (if test (Cls upper) password then score + 15 else score);
            score = (if test (Cls digit) password then score + 15 else score);
            score = (if test (Cls symbol) password then score + 20 else score)
        in if score < 30 then \<lparr>score = score, label = ''Weak'', color = ''bg-red-500''\<rparr>
           else if score < 60 then \<lparr>score = score, label = ''Fair'', color = ''bg-yellow-500''\<rparr>
           else if score < 80 then \<lparr>score = score, label = ''Good'', color = ''bg-blue-500''\<rparr>
           else \<lparr>score = score, label = ''Strong'', color = ''bg-green-500''\<rparr>)"

section \<open>Field control\<close>

text \<open>
  The \<open>Input\<close> component of \<open>packages/ui/src/input.tsx\<close>. Its props are one object
  whose \<open>type\<close> property is the tag of the union \<open>StandardInputProps | TextareaProps\<close>;
  \<open>rows\<close> and \<open>resize\<close> are the optional properties of the textarea side. Properties
  with a destructuring default (\<open>variant\<close>, \<open>size\<close>, \<open>disabled\<close>, \<open>required\<close>,
  \<open>fullWidth\<close>, \<open>className\<close>) are fields holding the value after the default; optional
  properties without one are options. Decorations (\<open>ReactNode\<close>) and callbacks are
  opaque values of the type parameters \<open>'n\<close> and \<open>'h\<close>. The fields carry the prefix
  \<open>i_\<close> because the other components declare properties of the same names.
\<close>

datatype InputVariant = Default | Filled | Outline | Underline | Gradient

datatype InputSize = XS | SM | MD | LG | XL

datatype InputType = Text | Email | Password | Number | Tel | Url | Search | Textarea

record ('n, 'h) InputProps =
  i_variant :: InputVariant
  i_size :: InputSize
  i_label :: "string option"
  i_placeholder :: "string option"
  i_helperText :: "string option"
  i_error :: "string option"
  i_disabled :: bool
  i_required :: bool
  i_fullWidth :: bool
  i_leftIcon :: "'n option"
  i_rightIcon :: "'n option"
  i_className :: string
  i_onLeftIconClick :: "'h option"
  i_onRightIconClick :: "'h option"
  i_type :: InputType
  i_rows :: "int option"
  i_resize :: "bool option"

definition isTextareaProps :: "('n, 'h) InputProps \<Rightarrow> bool" where
  "isTextareaProps props \<longleftrightarrow> i_type props = Textarea"

text \<open>The two \<open>useState\<close> cells of the component, both created as \<open>false\<close>.\<close>

record InteractionState =
  showPassword :: bool
  isFocused :: bool

definition initialState :: InteractionState where
  "initialState = \<lparr>showPassword = False, isFocused = False\<rparr>"

definition togglePasswordVisibility :: "InteractionState \<Rightarrow> InteractionState" where
  "togglePasswordVisibility st = st\<lparr>showPassword := \<not> showPassword st\<rparr>"

definition handleFocus :: "InteractionState \<Rightarrow> InteractionState" where
  "handleFocus st = st\<lparr>isFocused := True\<rparr>"

definition handleBlur :: "InteractionState \<Rightarrow> InteractionState" where
  "handleBlur st = st\<lparr>isFocused := False\<rparr>"

definition baseStyles :: string where
  "baseStyles = ''transition-all duration-200 focus:outline-none text-black placeholder-gray-400 disabled:opacity-50 disabled:cursor-not-allowed''"

fun variants :: "InputVariant \<Rightarrow> string" where
  "variants Default = ''border border-gray-300 bg-white focus:border-indigo-500 focus:ring-2 focus:ring-indigo-200''"
| "variants Filled = ''border-0 bg-gray-100 focus:bg-white focus:ring-2 focus:ring-indigo-500''"
| "variants Outline = ''border-2 border-gray-300 bg-transparent focus:border-indigo-500 focus:ring-2 focus:ring-indigo-200''"
| "variants Underline = ''border-0 border-b-2 border-gray-300 bg-transparent rounded-none focus:border-indigo-500 focus:ring-0''"
| "variants Gradient = ''border-2 border-transparent bg-gradient-to-r from-indigo-50 to-purple-50 focus:from-indigo-100 focus:to-purple-100 focus:border-gradient-to-r focus:border-indigo-500 focus:ring-2 focus:ring-indigo-200''"

fun sizes :: "InputSize \<Rightarrow> string" where
  "sizes XS = ''px-2 py-1 text-xs rounded''"
| "sizes SM = ''px-3 py-1.5 text-sm rounded-md''"
| "sizes MD = ''px-4 py-2 text-sm rounded-lg''"
| "sizes LG = ''px-6 py-3 text-base rounded-lg''"
| "sizes XL = ''px-8 py-4 text-lg rounded-xl''"

text \<open>
  \<open>actualType\<close> is a constant of the render function, computed from the configured kind
  and the toggle cell each time the component renders.
\<close>

definition actualType :: "InputType \<Rightarrow> InteractionState \<Rightarrow> InputType" where
  "actualType type st = (if type = Password \<and> showPassword st then Text else type)"

text \<open>
  The class string is a template of eight interpolations whose white space is then
  collapsed; it is kept here as the list of its blocks in order, the empty ones left out.
\<close>

definition inputClasses :: "('n, 'h) InputProps \<Rightarrow> string list" where
  "inputClasses props = filter truthy
     [baseStyles,
      variants (i_variant props),
      sizes (i_size props),
      if i_fullWidth props then ''w-full'' else [],
      if truthy_opt (i_error props) then ''border-red-500 focus:border-red-500 focus:ring-red-200'' else [],
      if i_leftIcon props \<noteq> None then ''pl-10'' else [],
      if i_rightIcon props \<noteq> None \<or> i_type props = Password then ''pr-10'' else [],
      i_className props]"

text \<open>
  What \<open>renderInput\<close> returns: an \<open>input\<close> element (a single-line control) or a
  \<open>textarea\<close> element (a multi-line control), with the attributes the component sets
  itself. The attributes forwarded untouched from the rest of the props are not part of
  the model.
\<close>

datatype element =
    InputElement InputType "string list" "string option" bool bool
  | TextareaElement "string list" "string option" bool bool int

definition renderInput :: "('n, 'h) InputProps \<Rightarrow> InteractionState \<Rightarrow> element" where
  "renderInput props st =
     (if isTextareaProps props then
        (let rows = (case i_rows props of None \<Rightarrow> 3 | Some r \<Rightarrow> r);
             resize = (case i_resize props of None \<Rightarrow> True | Some b \<Rightarrow> b)
         in TextareaElement
              (inputClasses props @ [if \<not> resize then ''resize-none'' else ''resize-y''])
              (i_placeholder props) (i_disabled props) (i_required props) rows)
      else
        InputElement (actualType (i_type props) st)
          (inputClasses props) (i_placeholder props) (i_disabled props) (i_required props))"

text \<open>
  A click on the trailing affordance, which is rendered when there is a right icon or the
  kind is password: for a password field it runs the toggle and no callback of the
  caller, otherwise it runs \<open>onRightIconClick\<close> when one was given. The result is the new
  state and the callbacks invoked.
\<close>

definition rightAffordanceClick ::
    "('n, 'h) InputProps \<Rightarrow> InteractionState \<Rightarrow> InteractionState \<times> 'h list" where
  "rightAffordanceClick props st =
     (if i_rightIcon props \<noteq> None \<or> i_type props = Password then
        (if i_type props = Password then (togglePasswordVisibility st, [])
         else (st, case i_onRightIconClick props of None \<Rightarrow> [] | Some h \<Rightarrow> [h]))
      else (st, []))"

section \<open>Password input\<close>

text \<open>
  The \<open>PasswordInput\<close> component beside the strength estimator. It owns the same two
  cells; its control is always an \<open>input\<close> whose kind is computed from the toggle cell,
  and the strength is computed from the current value when the meter is requested.
\<close>

definition PasswordInput_togglePasswordVisibility :: "InteractionState \<Rightarrow> InteractionState" where
  "PasswordInput_togglePasswordVisibility st = st\<lparr>showPassword := \<not> showPassword st\<rparr>"

definition PasswordInput_type :: "InteractionState \<Rightarrow> InputType" where
  "PasswordInput_type st = (if showPassword st then Text else Password)"

definition PasswordInput_strength :: "bool \<Rightarrow> js_string \<Rightarrow> strength option" where
  "PasswordInput_strength showStrengthMeter passwordValue =
     (if showStrengthMeter then Some (calculatePasswordStrength passwordValue) else None)"

section \<open>Action control\<close>

text \<open>
  The \<open>Button\<close> component. \<open>handleClick\<close> returns the calls it makes: the caller's
  handler applied to the event, or nothing. The rendered children are the loading
  spinner, the two icon spans and the caller's children, in the order of the source.
  The class string of the button plays no part in a click and is not rendered here.
\<close>

datatype ButtonVariant =
  Primary | Secondary | Success | Danger | Warning | Info | OutlineButton | Ghost | Link

datatype ButtonType = ButtonButton | Submit | Reset

record ('n, 'h) ButtonProps =
  b_children :: 'n
  b_variant :: ButtonVariant
  b_size :: InputSize
  b_disabled :: bool
  b_loading :: bool
  b_fullWidth :: bool
  b_leftIcon :: "'n option"
  b_rightIcon :: "'n option"
  b_onClick :: "'h option"
  b_type :: ButtonType
  b_className :: string

definition handleClick :: "('n, 'h) ButtonProps \<Rightarrow> 'e \<Rightarrow> ('h \<times> 'e) list" where
  "handleClick props event =
     (if \<not> b_disabled props \<and> \<not> b_loading props then
        (case b_onClick props of Some onClick \<Rightarrow> [(onClick, event)] | None \<Rightarrow> [])
      else [])"

datatype 'n child = LoadingSpinner | LeftIcon 'n | Children 'n | RightIcon 'n

record 'n button_element =
  be_type :: ButtonType
  be_disabled :: bool
  be_children :: "'n child list"

definition Button :: "('n, 'h) ButtonProps \<Rightarrow> 'n button_element" where
  "Button props =
     \<lparr>be_type = b_type props,
      be_disabled = (b_disabled props \<or> b_loading props),
      be_children =
        (if b_loading props then [LoadingSpinner] else []) @
        (if \<not> b_loading props then
           (case b_leftIcon props of Some leftIcon \<Rightarrow> [LeftIcon leftIcon] | None \<Rightarrow> [])
         else []) @
        [Children (b_children props)] @
        (if \<not> b_loading props then
           (case b_rightIcon props of Some rightIcon \<Rightarrow> [RightIcon rightIcon] | None \<Rightarrow> [])
         else [])\<rparr>"

section \<open>Form pages\<close>

text \<open>
  Every page keeps two \<open>useState\<close> cells: the field values, an object with the
  properties of its initial value (a record here; a change under a key that is not one
  of them would add a property nothing reads, and leaves the record as it is), and
  \<open>errors\<close>, a \<open>Record<string, string>\<close> that starts empty. The error object is an
  association list in insertion order: \<open>AList.update\<close> is the spread followed by a
  computed key, \<open>map_of\<close> the property read and \<open>map fst\<close> is \<open>Object.keys\<close>.
  A submit handler returns the new state and what it wrote to the console. The message
  of a log entry is a JavaScript string: the sign-in message ends in the code unit
  \<open>U+2705\<close>, a check mark, and the sign-up message in the three code units
  \<open>U+00E2\<close>, \<open>U+0153\<close>, \<open>U+2026\<close> that the source file holds at that place.
\<close>

type_synonym errors = "(string \<times> string) list"

record 'f page =
  formData :: 'f
  errors :: errors

datatype 'f console = Log js_string 'f

text \<open>The email pattern \<open>/\S+@\S+\.\S+/\<close> of the three validators.\<close>

definition email_pattern :: regex where
  "email_pattern =
     Seq (PlusC non_space) (Seq (Cls (lit CHR ''@''))
       (Seq (PlusC non_space) (Seq (Cls (lit CHR ''.'')) (PlusC non_space))))"

subsection \<open>Sign-in page\<close>

record Signin_formData =
  si_email :: js_string
  si_password :: js_string

definition Signin_initial :: "Signin_formData page" where
  "Signin_initial = \<lparr>formData = \<lparr>si_email = [], si_password = []\<rparr>, errors = []\<rparr>"

definition Signin_set :: "string \<Rightarrow> js_string \<Rightarrow> Signin_formData \<Rightarrow> Signin_formData" where
  "Signin_set field v d =
     (if field = ''email'' then d\<lparr>si_email := v\<rparr>
      else if field = ''password'' then d\<lparr>si_password := v\<rparr>
      else d)"

definition Signin_handleChange ::
    "string \<Rightarrow> js_string \<Rightarrow> Signin_formData page \<Rightarrow> Signin_formData page" where
  "Signin_handleChange field v st =
     \<lparr>formData = Signin_set field v (formData st),
      errors = (if truthy_opt (map_of (errors st) field)
                then AList.update field [] (errors st) else errors st)\<rparr>"

definition Signin_handleSubmit ::
    "Signin_formData page \<Rightarrow> Signin_formData page \<times> Signin_formData console list" where
  "Signin_handleSubmit st =
     (let newErrors = [];
          newErrors =
            (if \<not> truthy (trim (si_email (formData st)))
             then AList.update ''email'' ''Email is required'' newErrors
             else if \<not> test email_pattern (si_email (formData st))
             then AList.update ''email'' ''Invalid email'' newErrors
             else newErrors);
          newErrors =
            (if \<not> truthy (trim (si_password (formData st)))
             then AList.update ''password'' ''Password is required'' newErrors
             else newErrors)
      in (st\<lparr>errors := newErrors\<rparr>,
          if length (map fst newErrors) = 0 then [Log (utf16 ''Signin Success '' @ [0x2705]) (formData st)]
          else []))"

subsection \<open>Sign-up page\<close>

record Signup_formData =
  su_name :: js_string
  su_email :: js_string
  su_password :: js_string

definition Signup_initial :: "Signup_formData page" where
  "Signup_initial = \<lparr>formData = \<lparr>su_name = [], su_email = [], su_password = []\<rparr>, errors = []\<rparr>"

definition Signup_set :: "string \<Rightarrow> js_string \<Rightarrow> Signup_formData \<Rightarrow> Signup_formData" where
  "Signup_set field v d =
     (if field = ''name'' then d\<lparr>su_name := v\<rparr>
      else if field = ''email'' then d\<lparr>su_email := v\<rparr>
      else if field = ''password'' then d\<lparr>su_password := v\<rparr>
      else d)"

definition Signup_handleChange ::
    "string \<Rightarrow> js_string \<Rightarrow> Signup_formData page \<Rightarrow> Signup_formData page" where
  "Signup_handleChange field v st =
     \<lparr>formData = Signup_set field v (formData st),
      errors = (if truthy_opt (map_of (errors st) field)
                then AList.update field [] (errors st) else errors st)\<rparr>"

definition Signup_handleSubmit ::
    "Signup_formData page \<Rightarrow> Signup_formData page \<times> Signup_formData console list" where
  "Signup_handleSubmit st =
     (let newErrors = [];
          newErrors =
            (if \<not> truthy (trim (su_name (formData st)))
             then AList.update ''name'' ''Name is required'' newErrors
             else newErrors);
          newErrors =
            (if \<not> truthy (trim (su_email (formData st)))
             then AList.update ''email'' ''Email is required'' newErrors
             else if \<not> test email_pattern (su_email (formData st))
             then AList.update ''email'' ''Invalid email'' newErrors
             else newErrors);
          newErrors =
            (if \<not> truthy (trim (su_password (formData st)))
             then AList.update ''password'' ''Password is required'' newErrors
             else if length (su_password (formData st)) < 6
             then AList.update ''password'' ''Min 6 characters'' newErrors
             else newErrors)
      in (st\<lparr>errors := newErrors\<rparr>,
          if length (map fst newErrors) = 0 then [Log (utf16 ''Signup Success '' @ [0xE2, 0x153, 0x2026]) (formData st)]
          else []))"

subsection \<open>Input demo page\<close>

record InputDemo_formData =
  d_name :: js_string
  d_email :: js_string
  d_password :: js_string
  d_search :: js_string
  d_message :: js_string
  d_website :: js_string
  d_phone :: js_string

definition InputDemo_initial :: "InputDemo_formData page" where
  "InputDemo_initial =
     \<lparr>formData = \<lparr>d_name = [], d_email = [], d_password = [], d_search = [], d_message = [],
                   d_website = [], d_phone = []\<rparr>,
      errors = []\<rparr>"

definition InputDemo_set :: "string \<Rightarrow> js_string \<Rightarrow> InputDemo_formData \<Rightarrow> InputDemo_formData" where
  "InputDemo_set field v d =
     (if field = ''name'' then d\<lparr>d_name := v\<rparr>
      else if field = ''email'' then d\<lparr>d_email := v\<rparr>
      else if field = ''password'' then d\<lparr>d_password := v\<rparr>
      else if field = ''search'' then d\<lparr>d_search := v\<rparr>
      else if field = ''message'' then d\<lparr>d_message := v\<rparr>
      else if field = ''website'' then d\<lparr>d_website := v\<rparr>
      else if field = ''phone'' then d\<lparr>d_phone := v\<rparr>
      else d)"

definition handleInputChange ::
    "string \<Rightarrow> js_string \<Rightarrow> InputDemo_formData page \<Rightarrow> InputDemo_formData page" where
  "handleInputChange field v st =
     \<lparr>formData = InputDemo_set field v (formData st),
      errors = (if truthy_opt (map_of (errors st) field)
                then AList.update field [] (errors st) else errors st)\<rparr>"

definition validateForm :: "InputDemo_formData page \<Rightarrow> InputDemo_formData page" where
  "validateForm st =
     (let newErrors = [];
          newErrors =
            (if \<not> truthy (trim (d_name (formData st)))
             then AList.update ''name'' ''Name is required'' newErrors
             else newErrors);
          newErrors =
            (if \<not> truthy (trim (d_email (formData st)))
             then AList.update ''email'' ''Email is required'' newErrors
             else if \<not> test email_pattern (d_email (formData st))
             then AList.update ''email'' ''Please enter a valid email'' newErrors
             else newErrors);
          newErrors =
            (if \<not> truthy (trim (d_password (formData st)))
             then AList.update ''password'' ''Password is required'' newErrors
             else if length (d_password (formData st)) < 6
             then AList.update ''password'' ''Password must be at least 6 characters'' newErrors
             else newErrors)
      in st\<lparr>errors := newErrors\<rparr>)"

subsection \<open>Password input demo page\<close>

record PasswordInputDemo_passwords =
  pw_basic :: js_string
  pw_withStrength :: js_string
  pw_withIcon :: js_string
  pw_form :: js_string

text \<open>The pattern \<open>/(?=.*[a-z])(?=.*[A-Z])(?=.*\d)/\<close>.\<close>

definition mixed_pattern :: regex where
  "mixed_pattern =
     Seq (Ahead (Seq (StarC dot) (Cls lower)))
       (Seq (Ahead (Seq (StarC dot) (Cls upper))) (Ahead (Seq (StarC dot) (Cls digit))))"

definition validatePasswords ::
    "PasswordInputDemo_passwords page \<Rightarrow> PasswordInputDemo_passwords page" where
  "validatePasswords st =
     (let newErrors = [];
          newErrors =
            (if \<not> truthy (trim (pw_form (formData st)))
             then AList.update ''form'' ''Password is required'' newErrors
             else if length (pw_form (formData st)) < 8
             then AList.update ''form'' ''Password must be at least 8 characters'' newErrors
             else if \<not> test mixed_pattern (pw_form (formData st))
             then AList.update ''form'' ''Password must contain uppercase, lowercase, and numbers'' newErrors
             else newErrors)
      in st\<lparr>errors := newErrors\<rparr>)"

section \<open>Notions of the specification\<close>

text \<open>
  The six conditions the specification lists for the strength score, and the set of
  those a password satisfies.
\<close>

datatype condition = Len8 | Len12 | HasLower | HasUpper | HasDigit | HasSymbol

fun holds :: "condition \<Rightarrow> js_string \<Rightarrow> bool" where
  "holds Len8 p = (length p \<ge> 8)"
| "holds Len12 p = (length p \<ge> 12)"
| "holds HasLower p = test (Cls lower) p"
| "holds HasUpper p = test (Cls upper) p"
| "holds HasDigit p = test (Cls digit) p"
| "holds HasSymbol p = test (Cls symbol) p"

definition conditions :: "js_string \<Rightarrow> condition set" where
  "conditions p =
     set (filter (\<lambda>c. holds c p) [Len8, Len12, HasLower, HasUpper, HasDigit, HasSymbol])"

text \<open>
  The email shape in the specification's words: somewhere in the value there are one or
  more non-space characters, an \<open>@\<close>, one or more non-space characters, a full stop and
  one or more non-space characters.
\<close>

definition contains_email_shape :: "js_string \<Rightarrow> bool" where
  "contains_email_shape s \<longleftrightarrow>
     (\<exists>pre a b c post.
        s = pre @ a @ [0x40] @ b @ [0x2E] @ c @ post \<and>
        a \<noteq> [] \<and> b \<noteq> [] \<and> c \<noteq> [] \<and>
        (\<forall>x\<in>set a. \<not> is_space x) \<and> (\<forall>x\<in>set b. \<not> is_space x) \<and>
        (\<forall>x\<in>set c. \<not> is_space x))"

text \<open>
  The data model's reading of the error map: a field has an error when its entry is
  present and not empty; an absent entry and an empty one both mean that the field is
  valid. It is also the one way the source reads the \<open>errors\<close> cell: the guard
  \<open>errors[field]\<close> of the change handlers and the \<open>error\<close> property of the controls.
\<close>

definition has_error :: "errors \<Rightarrow> string \<Rightarrow> bool" where
  "has_error errs field \<longleftrightarrow> truthy_opt (map_of errs field)"

text \<open>An \<open>input\<close> element is a single-line control, a \<open>textarea\<close> a multi-line one.\<close>

datatype line_kind = SingleLine | MultiLine

fun control_kind :: "element \<Rightarrow> line_kind" where
  "control_kind (InputElement t cls ph dis req) = SingleLine"
| "control_kind (TextareaElement cls ph dis req rows) = MultiLine"

section \<open>Regular expression matching\<close>

text \<open>
  What the matcher computes, stated on the strings: a remainder of a starred class is any
  suffix reached over characters of the class, and a test succeeds when the pattern
  matches at the start of some suffix.
\<close>

lemma star_rests_self: "s \<in> set (star_rests p s)"
  by (cases s) simp_all

lemma star_rests_step: "p c \<Longrightarrow> t \<in> set (star_rests p cs) \<Longrightarrow> t \<in> set (star_rests p (c # cs))"
  by simp

lemma star_rests_intro: "(\<forall>x\<in>set u. p x) \<Longrightarrow> t \<in> set (star_rests p (u @ t))"
proof (induction u)
  case Nil
  show ?case by (simp add: star_rests_self)
next
  case (Cons a u)
  then have "p a" and "t \<in> set (star_rests p (u @ t))" by simp_all
  then show ?case by (simp only: append_Cons star_rests_step)
qed

lemma star_rests_elim: "t \<in> set (star_rests p s) \<Longrightarrow> \<exists>u. s = u @ t \<and> (\<forall>x\<in>set u. p x)"
proof (induction s)
  case Nil
  then show ?case by simp
next
  case (Cons c cs)
  from Cons.prems have "t = c # cs \<or> (p c \<and> t \<in> set (star_rests p cs))"
    by (cases "p c") simp_all
  then consider "t = c # cs" | "p c" "t \<in> set (star_rests p cs)"
    by blast
  then show ?case
  proof cases
    case 1
    then have "c # cs = [] @ t \<and> (\<forall>x\<in>set []. p x)" by simp
    then show ?thesis by (rule exI)
  next
    case 2
    with Cons.IH obtain u where u: "cs = u @ t" "\<forall>x\<in>set u. p x" by blast
    with 2 have "c # cs = (c # u) @ t \<and> (\<forall>x\<in>set (c # u). p x)" by simp
    then show ?thesis by (rule exI)
  qed
qed

lemma star_rests_iff: "t \<in> set (star_rests p s) \<longleftrightarrow> (\<exists>u. s = u @ t \<and> (\<forall>x\<in>set u. p x))"
  using star_rests_elim star_rests_intro by blast

lemma tails_self: "s \<in> set (tails s)"
  by (cases s) simp_all

lemma tails_intro: "t \<in> set (tails (u @ t))"
  by (induction u) (simp_all add: tails_self)

lemma tails_elim: "t \<in> set (tails s) \<Longrightarrow> \<exists>u. s = u @ t"
proof (induction s)
  case Nil
  then show ?case by simp
next
  case (Cons c cs)
  from Cons.prems consider "t = c # cs" | "t \<in> set (tails cs)" by auto
  then show ?case
  proof cases
    case 1
    then have "c # cs = [] @ t" by simp
    then show ?thesis by (rule exI)
  next
    case 2
    with Cons.IH obtain u where "cs = u @ t" by blast
    then have "c # cs = (c # u) @ t" by simp
    then show ?thesis by (rule exI)
  qed
qed

lemma tails_iff: "t \<in> set (tails s) \<longleftrightarrow> (\<exists>u. s = u @ t)"
  using tails_elim tails_intro by blast

lemma test_iff: "test r s \<longleftrightarrow> (\<exists>u t. s = u @ t \<and> rmatch r t \<noteq> [])"
proof
  assume "test r s"
  then obtain t where t: "t \<in> set (tails s)" "rmatch r t \<noteq> []"
    unfolding test_def list_ex_iff by blast
  from tails_elim[OF t(1)] obtain u where "s = u @ t" ..
  with t(2) show "\<exists>u t. s = u @ t \<and> rmatch r t \<noteq> []" by blast
next
  assume "\<exists>u t. s = u @ t \<and> rmatch r t \<noteq> []"
  then obtain u t where ut: "s = u @ t" "rmatch r t \<noteq> []" by blast
  have "t \<in> set (tails (u @ t))" by (rule tails_intro)
  with ut show "test r s" unfolding test_def list_ex_iff by blast
qed

lemma Cls_iff: "t \<in> set (rmatch (Cls p) s) \<longleftrightarrow> (\<exists>c. p c \<and> s = c # t)"
  by (cases s) auto

lemma PlusC_iff:
  "t \<in> set (rmatch (PlusC p) s) \<longleftrightarrow> (\<exists>u. u \<noteq> [] \<and> s = u @ t \<and> (\<forall>x\<in>set u. p x))"
proof
  assume a: "t \<in> set (rmatch (PlusC p) s)"
  then obtain c cs where s: "s = c # cs" by (cases s) simp_all
  with a have "p c" and "t \<in> set (star_rests p cs)" by (simp_all split: if_splits)
  with star_rests_elim obtain u where "cs = u @ t" "\<forall>x\<in>set u. p x" by blast
  with \<open>p c\<close> s have "c # u \<noteq> [] \<and> s = (c # u) @ t \<and> (\<forall>x\<in>set (c # u). p x)" by simp
  then show "\<exists>u. u \<noteq> [] \<and> s = u @ t \<and> (\<forall>x\<in>set u. p x)" by (rule exI)
next
  assume "\<exists>u. u \<noteq> [] \<and> s = u @ t \<and> (\<forall>x\<in>set u. p x)"
  then obtain u where u: "u \<noteq> []" "s = u @ t" "\<forall>x\<in>set u. p x" by blast
  then obtain d u' where du: "u = d # u'" by (cases u) simp_all
  with u have "p d" and "\<forall>x\<in>set u'. p x" by simp_all
  then have "t \<in> set (star_rests p (u' @ t))" by (simp only: star_rests_intro)
  with \<open>p d\<close> u du show "t \<in> set (rmatch (PlusC p) s)" by simp
qed

lemma Seq_iff: "t \<in> set (rmatch (Seq a b) s) \<longleftrightarrow> (\<exists>m. m \<in> set (rmatch a s) \<and> t \<in> set (rmatch b m))"
  by auto

lemma dropWhile_all_iff: "(\<forall>x\<in>set (dropWhile P s). P x) \<longleftrightarrow> (\<forall>x\<in>set s. P x)"
proof
  assume a: "\<forall>x\<in>set (dropWhile P s). P x"
  have "dropWhile P s = []"
  proof (cases "dropWhile P s")
    case Nil
    then show ?thesis .
  next
    case (Cons a as)
    with hd_dropWhile[of P s] have "\<not> P a" by simp
    with Cons a show ?thesis by simp
  qed
  then show "\<forall>x\<in>set s. P x" by (simp add: dropWhile_eq_Nil_conv)
next
  assume "\<forall>x\<in>set s. P x"
  then show "\<forall>x\<in>set (dropWhile P s). P x" by (meson set_dropWhileD)
qed

lemma trim_empty_iff: "trim s = [] \<longleftrightarrow> (\<forall>x\<in>set s. is_space x)"
proof -
  have "trim s = [] \<longleftrightarrow> (\<forall>x\<in>set (dropWhile is_space s). is_space x)"
    by (simp add: trim_def dropWhile_eq_Nil_conv)
  then show ?thesis by (simp only: dropWhile_all_iff)
qed

lemma lit_at: "lit CHR ''@'' c \<longleftrightarrow> c = 0x40"
  by (simp add: lit_def)

lemma lit_dot: "lit CHR ''.'' c \<longleftrightarrow> c = 0x2E"
  by (simp add: lit_def)

lemma email_pattern_rests:
  "t \<in> set (rmatch email_pattern s) \<longleftrightarrow>
     (\<exists>a b c. s = a @ [0x40] @ b @ [0x2E] @ c @ t \<and> a \<noteq> [] \<and> b \<noteq> [] \<and> c \<noteq> [] \<and>
        (\<forall>x\<in>set a. \<not> is_space x) \<and> (\<forall>x\<in>set b. \<not> is_space x) \<and> (\<forall>x\<in>set c. \<not> is_space x))"
  (is "?L \<longleftrightarrow> ?R")
proof
  assume ?L
  then obtain m1 m2 m3 m4 where
    1: "m1 \<in> set (rmatch (PlusC non_space) s)" and
    2: "m2 \<in> set (rmatch (Cls (lit CHR ''@'')) m1)" and
    3: "m3 \<in> set (rmatch (PlusC non_space) m2)" and
    4: "m4 \<in> set (rmatch (Cls (lit CHR ''.'')) m3)" and
    5: "t \<in> set (rmatch (PlusC non_space) m4)"
    unfolding email_pattern_def Seq_iff by blast
  from 1 obtain a where a: "a \<noteq> []" "s = a @ m1" "\<forall>x\<in>set a. non_space x"
    unfolding PlusC_iff by blast
  from 2 have m1: "m1 = 0x40 # m2" unfolding Cls_iff lit_at by blast
  from 3 obtain b where b: "b \<noteq> []" "m2 = b @ m3" "\<forall>x\<in>set b. non_space x"
    unfolding PlusC_iff by blast
  from 4 have m3: "m3 = 0x2E # m4" unfolding Cls_iff lit_dot by blast
  from 5 obtain c where c: "c \<noteq> []" "m4 = c @ t" "\<forall>x\<in>set c. non_space x"
    unfolding PlusC_iff by blast
  from a b c m1 m3
  have "s = a @ [0x40] @ b @ [0x2E] @ c @ t \<and> a \<noteq> [] \<and> b \<noteq> [] \<and> c \<noteq> [] \<and>
        (\<forall>x\<in>set a. \<not> is_space x) \<and> (\<forall>x\<in>set b. \<not> is_space x) \<and> (\<forall>x\<in>set c. \<not> is_space x)"
    by (simp add: non_space_def)
  then show ?R by blast
next
  assume ?R
  then obtain a b c where s: "s = a @ [0x40] @ b @ [0x2E] @ c @ t"
    and a: "a \<noteq> []" "\<forall>x\<in>set a. non_space x"
    and b: "b \<noteq> []" "\<forall>x\<in>set b. non_space x"
    and c: "c \<noteq> []" "\<forall>x\<in>set c. non_space x"
    unfolding non_space_def by blast
  have 5: "t \<in> set (rmatch (PlusC non_space) (c @ t))"
    unfolding PlusC_iff using c by blast
  have 4: "c @ t \<in> set (rmatch (Cls (lit CHR ''.'')) (0x2E # c @ t))"
    unfolding Cls_iff lit_dot by blast
  have 3: "0x2E # c @ t \<in> set (rmatch (PlusC non_space) (b @ 0x2E # c @ t))"
    unfolding PlusC_iff using b by blast
  have 2: "b @ 0x2E # c @ t \<in> set (rmatch (Cls (lit CHR ''@'')) (0x40 # b @ 0x2E # c @ t))"
    unfolding Cls_iff lit_at by blast
  have 1: "0x40 # b @ 0x2E # c @ t \<in> set (rmatch (PlusC non_space) (a @ 0x40 # b @ 0x2E # c @ t))"
    unfolding PlusC_iff using a by blast
  have "t \<in> set (rmatch email_pattern (a @ 0x40 # b @ 0x2E # c @ t))"
    unfolding email_pattern_def Seq_iff using 1 2 3 4 5 by blast
  with s show ?L by simp
qed

lemma email_pattern_shape: "test email_pattern s \<longleftrightarrow> contains_email_shape s"
proof
  assume "test email_pattern s"
  then obtain u t where ut: "s = u @ t" "rmatch email_pattern t \<noteq> []"
    unfolding test_iff by blast
  then obtain r where "r \<in> set (rmatch email_pattern t)"
    by (cases "rmatch email_pattern t") auto
  then obtain a b c where "t = a @ [0x40] @ b @ [0x2E] @ c @ r" "a \<noteq> []" "b \<noteq> []" "c \<noteq> []"
    "\<forall>x\<in>set a. \<not> is_space x" "\<forall>x\<in>set b. \<not> is_space x" "\<forall>x\<in>set c. \<not> is_space x"
    unfolding email_pattern_rests by blast
  with ut(1) show "contains_email_shape s"
    unfolding contains_email_shape_def by blast
next
  assume "contains_email_shape s"
  then obtain pre a b c post where s: "s = pre @ a @ [0x40] @ b @ [0x2E] @ c @ post"
    and abc: "a \<noteq> []" "b \<noteq> []" "c \<noteq> []"
    "\<forall>x\<in>set a. \<not> is_space x" "\<forall>x\<in>set b. \<not> is_space x" "\<forall>x\<in>set c. \<not> is_space x"
    unfolding contains_email_shape_def by blast
  from abc have "post \<in> set (rmatch email_pattern (a @ [0x40] @ b @ [0x2E] @ c @ post))"
    unfolding email_pattern_rests by blast
  then have "rmatch email_pattern (a @ [0x40] @ b @ [0x2E] @ c @ post) \<noteq> []"
    by (cases "rmatch email_pattern (a @ [0x40] @ b @ [0x2E] @ c @ post)") simp_all
  with s show "test email_pattern s" unfolding test_iff by blast
qed

lemma shape_not_blank: "contains_email_shape s \<Longrightarrow> trim s \<noteq> []"
proof -
  assume "contains_email_shape s"
  then obtain pre a b c post where "s = pre @ a @ [0x40] @ b @ [0x2E] @ c @ post"
    unfolding contains_email_shape_def by blast
  then have "(0x40 :: code_unit) \<in> set s" by simp
  moreover have "\<not> is_space (0x40 :: code_unit)"
    by (simp add: is_space_def is_white_space_def is_line_terminator_def)
  ultimately show ?thesis unfolding trim_empty_iff by blast
qed

lemma test_Cls: "test (Cls p) s \<longleftrightarrow> (\<exists>c\<in>set s. p c)"
  unfolding test_def by (induction s) auto

section \<open>Password strength\<close>

lemma conditions_iff: "c \<in> conditions p \<longleftrightarrow> holds c p"
  unfolding conditions_def set_filter by (cases c) auto

lemma class_cover: "lower c \<or> upper c \<or> digit c \<or> symbol c"
  by (auto simp: symbol_def)

lemma some_class:
  "s \<noteq> [] \<Longrightarrow>
   test (Cls lower) s \<or> test (Cls upper) s \<or> test (Cls digit) s \<or> test (Cls symbol) s"
  using class_cover[of "hd s"] by (cases s) (auto simp: test_Cls)

lemma score_sum:
  "password \<noteq> [] \<Longrightarrow> score (calculatePasswordStrength password) =
     (if holds Len8 password then 25 else 0) + (if holds Len12 password then 10 else 0) +
     (if holds HasLower password then 15 else 0) + (if holds HasUpper password then 15 else 0) +
     (if holds HasDigit password then 15 else 0) + (if holds HasSymbol password then 20 else 0)"
  by (simp add: calculatePasswordStrength_def truthy_def Let_def)

lemma score_empty: "score (calculatePasswordStrength []) = 0"
  by (simp add: calculatePasswordStrength_def truthy_def)

lemma label_bands:
  "password \<noteq> [] \<Longrightarrow> label (calculatePasswordStrength password) =
     (let s = score (calculatePasswordStrength password) in
      if s < 30 then ''Weak'' else if s < 60 then ''Fair''
      else if s < 80 then ''Good'' else ''Strong'')"
  by (simp add: calculatePasswordStrength_def truthy_def Let_def)

text \<open>
  Claim C3. For a non-empty password the score is the sum of 25 when the length is at
  least 8, 10 more when it is at least 12, 15 for a lowercase letter, 15 for an uppercase
  letter, 15 for a digit and 20 for a symbol; it never exceeds 100; and the label is
  Weak below 30, Fair below 60, Good below 80 and Strong from 80 on.
\<close>

theorem strength_score_and_label:
  "password \<noteq> [] \<Longrightarrow>
   score (calculatePasswordStrength password) =
     (if length password \<ge> 8 then 25 else 0) + (if length password \<ge> 12 then 10 else 0) +
     (if test (Cls lower) password then 15 else 0) +
     (if test (Cls upper) password then 15 else 0) +
     (if test (Cls digit) password then 15 else 0) +
     (if test (Cls symbol) password then 20 else 0) \<and>
   score (calculatePasswordStrength password) \<le> 100 \<and>
   label (calculatePasswordStrength password) =
     (if score (calculatePasswordStrength password) < 30 then ''Weak''
      else if score (calculatePasswordStrength password) < 60 then ''Fair''
      else if score (calculatePasswordStrength password) < 80 then ''Good''
      else ''Strong'')"
  using label_bands[of password] by (simp add: score_sum Let_def)

theorem strength_score_and_label_witness:
  "utf16 ''Abcdefg1!xyz'' \<noteq> [] \<and>
   score (calculatePasswordStrength (utf16 ''Abcdefg1!xyz'')) = 100 \<and>
   score (calculatePasswordStrength (utf16 ''Abcdefg1!xyz'')) \<le> 100 \<and>
   label (calculatePasswordStrength (utf16 ''Abcdefg1!xyz'')) = ''Strong''"
proof -
  have ne: "utf16 ''Abcdefg1!xyz'' \<noteq> []"
    by (simp add: utf16_def)
  have v: "score (calculatePasswordStrength (utf16 ''Abcdefg1!xyz'')) = 100"
    by code_simp
  from strength_score_and_label[OF ne] v ne show ?thesis
    by simp
qed

text \<open>
  Claim C4. When every strength condition that a password \<open>p\<close> satisfies is also
  satisfied by a password \<open>q\<close>, the score of \<open>p\<close> is at most the score of \<open>q\<close>.
\<close>

theorem strength_monotone:
  "conditions p \<subseteq> conditions q \<Longrightarrow>
   score (calculatePasswordStrength p) \<le> score (calculatePasswordStrength q)"
proof -
  assume sub: "conditions p \<subseteq> conditions q"
  have imp: "holds c p \<Longrightarrow> holds c q" for c
    using sub by (auto simp: conditions_iff subset_iff)
  show ?thesis
  proof (cases "p = []")
    case True
    show ?thesis
    proof (cases "q = []")
      case True
      with \<open>p = []\<close> show ?thesis by simp
    next
      case False
      then show ?thesis using True by (simp add: score_sum score_empty)
    qed
  next
    case False
    from some_class[OF False] obtain c where c: "holds c p"
      by (metis holds.simps(3,4,5,6))
    have "q \<noteq> []"
    proof
      assume "q = []"
      with imp[OF c] show False by (cases c) (simp_all add: test_Cls)
    qed
    with False imp[of Len8] imp[of Len12] imp[of HasLower] imp[of HasUpper]
      imp[of HasDigit] imp[of HasSymbol]
    show ?thesis by (simp add: score_sum)
  qed
qed

theorem strength_monotone_witness:
  "conditions (utf16 ''abc'') \<subseteq> conditions (utf16 ''abcdefgh1'') \<and>
   score (calculatePasswordStrength (utf16 ''abc''))
     \<le> score (calculatePasswordStrength (utf16 ''abcdefgh1''))"
proof -
  have h: "conditions (utf16 ''abc'') \<subseteq> conditions (utf16 ''abcdefgh1'')"
    by code_simp
  from strength_monotone[OF h] h show ?thesis
    by simp
qed

text \<open>
  Claim C10. The estimator returns score 0 with an empty label and an empty colour for
  the empty string. Every code unit is in one of the four character classes, so a
  non-empty password scores at least 15 and its label is one of Weak, Fair, Good and
  Strong.
\<close>

theorem strength_empty_and_floor:
  "calculatePasswordStrength [] = \<lparr>score = 0, label = [], color = []\<rparr> \<and>
   (\<forall>c. lower c \<or> upper c \<or> digit c \<or> symbol c) \<and>
   (password \<noteq> [] \<longrightarrow>
      15 \<le> score (calculatePasswordStrength password) \<and>
      label (calculatePasswordStrength password) \<in> {''Weak'', ''Fair'', ''Good'', ''Strong''})"
proof (intro conjI impI allI)
  show "calculatePasswordStrength [] = \<lparr>score = 0, label = [], color = []\<rparr>"
    by (simp add: calculatePasswordStrength_def truthy_def)
  show "lower c \<or> upper c \<or> digit c \<or> symbol c" for c
    by (rule class_cover)
  show "15 \<le> score (calculatePasswordStrength password)" if "password \<noteq> []"
    using some_class[OF that] that by (auto simp add: score_sum)
  show "label (calculatePasswordStrength password) \<in> {''Weak'', ''Fair'', ''Good'', ''Strong''}"
    if "password \<noteq> []"
    using that by (simp add: label_bands Let_def)
qed

theorem strength_empty_and_floor_witness:
  "utf16 ''a'' \<noteq> [] \<and>
   score (calculatePasswordStrength (utf16 ''a'')) = 15 \<and>
   15 \<le> score (calculatePasswordStrength (utf16 ''a'')) \<and>
   label (calculatePasswordStrength (utf16 ''a'')) \<in> {''Weak'', ''Fair'', ''Good'', ''Strong''}"
proof -
  have ne: "utf16 ''a'' \<noteq> []"
    by (simp add: utf16_def)
  have v: "score (calculatePasswordStrength (utf16 ''a'')) = 15"
    by code_simp
  from strength_empty_and_floor[of "utf16 ''a''"] ne v show ?thesis
    by simp
qed

section \<open>Visibility toggle and kind dispatch\<close>

lemma toggle_funpow:
  "showPassword ((togglePasswordVisibility ^^ n) st) = (if even n then showPassword st else \<not> showPassword st)"
  by (induction n) (simp_all add: togglePasswordVisibility_def)

lemma PasswordInput_toggle_funpow:
  "showPassword ((PasswordInput_togglePasswordVisibility ^^ n) st) = (if even n then showPassword st else \<not> showPassword st)"
  by (induction n) (simp_all add: PasswordInput_togglePasswordVisibility_def)

text \<open>
  Claim C5. From the initial interaction state, after an even number of toggles the
  effective kind of a password field is the masked kind \<open>password\<close> and after an odd
  number it is \<open>text\<close>, in the field control and in the password input alike. The
  effective kind is no cell of the state: it is a function of the configured kind and
  the toggle cell, evaluated by the render, and the rendered element carries it. A click
  on the trailing affordance of a password field is one toggle.
\<close>

theorem toggle_parity:
  "actualType Password ((togglePasswordVisibility ^^ n) (initialState\<lparr>isFocused := f\<rparr>)) =
     (if even n then Password else Text) \<and>
   renderInput (props\<lparr>i_type := Password\<rparr>) ((togglePasswordVisibility ^^ n) (initialState\<lparr>isFocused := f\<rparr>)) =
     InputElement (if even n then Password else Text) (inputClasses (props\<lparr>i_type := Password\<rparr>))
       (i_placeholder props) (i_disabled props) (i_required props) \<and>
   fst (rightAffordanceClick (props\<lparr>i_type := Password\<rparr>) st) = togglePasswordVisibility st \<and>
   PasswordInput_type ((PasswordInput_togglePasswordVisibility ^^ n) (initialState\<lparr>isFocused := f\<rparr>)) =
     (if even n then Password else Text)"
  by (simp add: actualType_def renderInput_def isTextareaProps_def PasswordInput_type_def
      rightAffordanceClick_def toggle_funpow PasswordInput_toggle_funpow initialState_def)

theorem toggle_parity_witness:
  "actualType Password ((togglePasswordVisibility ^^ 2) initialState) = Password \<and>
   actualType Password ((togglePasswordVisibility ^^ 3) initialState) = Text \<and>
   PasswordInput_type ((PasswordInput_togglePasswordVisibility ^^ 2) initialState) = Password \<and>
   PasswordInput_type ((PasswordInput_togglePasswordVisibility ^^ 3) initialState) = Text"
proof -
  have i: "initialState\<lparr>isFocused := False\<rparr> = initialState"
    by (simp add: initialState_def)
  from toggle_parity[of 2 False "\<lparr>i_variant = Default, i_size = MD, i_label = None, i_placeholder = None,
      i_helperText = None, i_error = None, i_disabled = False, i_required = True,
      i_fullWidth = True, i_leftIcon = None, i_rightIcon = (None :: nat option), i_className = [],
      i_onLeftIconClick = None, i_onRightIconClick = (None :: nat option), i_type = Password,
      i_rows = None, i_resize = None\<rparr>" initialState]
    toggle_parity[of 3 False "\<lparr>i_variant = Default, i_size = MD, i_label = None, i_placeholder = None,
      i_helperText = None, i_error = None, i_disabled = False, i_required = True,
      i_fullWidth = True, i_leftIcon = None, i_rightIcon = (None :: nat option), i_className = [],
      i_onLeftIconClick = None, i_onRightIconClick = (None :: nat option), i_type = Password,
      i_rows = None, i_resize = None\<rparr>" initialState] i
  show ?thesis by simp
qed

text \<open>
  Claim C7. The field control renders a multi-line control exactly when the kind tag of
  its configuration is the textarea tag, and a single-line control for every other kind
  (the password kind included), whatever the other properties and the interaction state.
\<close>

theorem kind_dispatch:
  "control_kind (renderInput props st) = (if i_type props = Textarea then MultiLine else SingleLine)"
  by (simp add: renderInput_def isTextareaProps_def Let_def)

theorem kind_dispatch_witness:
  "control_kind (renderInput \<lparr>i_variant = Default, i_size = MD, i_label = None, i_placeholder = None,
      i_helperText = None, i_error = None, i_disabled = False, i_required = True,
      i_fullWidth = True, i_leftIcon = None, i_rightIcon = (None :: nat option), i_className = [],
      i_onLeftIconClick = None, i_onRightIconClick = (None :: nat option), i_type = Textarea,
      i_rows = None, i_resize = None\<rparr> initialState) = MultiLine \<and>
   control_kind (renderInput \<lparr>i_variant = Default, i_size = MD, i_label = None, i_placeholder = None,
      i_helperText = None, i_error = None, i_disabled = False, i_required = True,
      i_fullWidth = True, i_leftIcon = None, i_rightIcon = (None :: nat option), i_className = [],
      i_onLeftIconClick = None, i_onRightIconClick = (None :: nat option), i_type = Password,
      i_rows = None, i_resize = None\<rparr> initialState) = SingleLine \<and>
   control_kind (renderInput \<lparr>i_variant = Default, i_size = MD, i_label = None, i_placeholder = None,
      i_helperText = None, i_error = None, i_disabled = False, i_required = True,
      i_fullWidth = True, i_leftIcon = None, i_rightIcon = (None :: nat option), i_className = [],
      i_onLeftIconClick = None, i_onRightIconClick = (None :: nat option), i_type = Email,
      i_rows = None, i_resize = None\<rparr> initialState) = SingleLine"
  using kind_dispatch[of "\<lparr>i_variant = Default, i_size = MD, i_label = None, i_placeholder = None,
      i_helperText = None, i_error = None, i_disabled = False, i_required = True,
      i_fullWidth = True, i_leftIcon = None, i_rightIcon = (None :: nat option), i_className = [],
      i_onLeftIconClick = None, i_onRightIconClick = (None :: nat option), i_type = Textarea,
      i_rows = None, i_resize = None\<rparr>" initialState]
    kind_dispatch[of "\<lparr>i_variant = Default, i_size = MD, i_label = None, i_placeholder = None,
      i_helperText = None, i_error = None, i_disabled = False, i_required = True,
      i_fullWidth = True, i_leftIcon = None, i_rightIcon = (None :: nat option), i_className = [],
      i_onLeftIconClick = None, i_onRightIconClick = (None :: nat option), i_type = Password,
      i_rows = None, i_resize = None\<rparr>" initialState]
    kind_dispatch[of "\<lparr>i_variant = Default, i_size = MD, i_label = None, i_placeholder = None,
      i_helperText = None, i_error = None, i_disabled = False, i_required = True,
      i_fullWidth = True, i_leftIcon = None, i_rightIcon = (None :: nat option), i_className = [],
      i_onLeftIconClick = None, i_onRightIconClick = (None :: nat option), i_type = Email,
      i_rows = None, i_resize = None\<rparr>" initialState]
  by simp

section \<open>Button clicks\<close>

text \<open>
  Claim C9. When the button is disabled or loading, \<open>handleClick\<close> calls no handler,
  whether or not the caller supplied one; when it is loading, the rendered children are
  the loading spinner followed by the caller's children, so the spinner stands where the
  left icon would be; a button that is not loading renders no spinner.
\<close>

theorem click_suppressed:
  "(b_disabled props \<or> b_loading props \<longrightarrow> handleClick props event = []) \<and>
   (b_loading props \<longrightarrow> be_children (Button props) = [LoadingSpinner, Children (b_children props)]) \<and>
   (\<not> b_loading props \<longrightarrow> LoadingSpinner \<notin> set (be_children (Button props)))"
  by (auto simp add: handleClick_def Button_def split: option.splits)

theorem click_suppressed_witness:
  "handleClick \<lparr>b_children = (0::nat), b_variant = Primary, b_size = MD, b_disabled = False,
      b_loading = True, b_fullWidth = False, b_leftIcon = Some 1, b_rightIcon = None,
      b_onClick = Some (7::nat), b_type = Submit, b_className = []\<rparr> (3::nat) = [] \<and>
   be_children (Button \<lparr>b_children = (0::nat), b_variant = Primary, b_size = MD, b_disabled = False,
      b_loading = True, b_fullWidth = False, b_leftIcon = Some 1, b_rightIcon = None,
      b_onClick = Some (7::nat), b_type = Submit, b_className = []\<rparr>) = [LoadingSpinner, Children 0]"
  using click_suppressed[of "\<lparr>b_children = (0::nat), b_variant = Primary, b_size = MD, b_disabled = False,
      b_loading = True, b_fullWidth = False, b_leftIcon = Some 1, b_rightIcon = None,
      b_onClick = Some (7::nat), b_type = Submit, b_className = []\<rparr>" "3::nat"]
  by simp

section \<open>Form validation\<close>

text \<open>The entry each validator leaves under a key of the new error object.\<close>

lemma Signin_email_entry:
  "map_of (errors (fst (Signin_handleSubmit st))) ''email'' =
     (if trim (si_email (formData st)) = [] then Some ''Email is required''
      else if \<not> test email_pattern (si_email (formData st)) then Some ''Invalid email''
      else None)"
  by (simp add: Signin_handleSubmit_def Let_def truthy_def update_conv')

lemma Signin_password_entry:
  "map_of (errors (fst (Signin_handleSubmit st))) ''password'' =
     (if trim (si_password (formData st)) = [] then Some ''Password is required'' else None)"
  by (simp add: Signin_handleSubmit_def Let_def truthy_def update_conv')

lemma Signup_email_entry:
  "map_of (errors (fst (Signup_handleSubmit st))) ''email'' =
     (if trim (su_email (formData st)) = [] then Some ''Email is required''
      else if \<not> test email_pattern (su_email (formData st)) then Some ''Invalid email''
      else None)"
  by (simp add: Signup_handleSubmit_def Let_def truthy_def update_conv')

lemma Signup_password_entry:
  "map_of (errors (fst (Signup_handleSubmit st))) ''password'' =
     (if trim (su_password (formData st)) = [] then Some ''Password is required''
      else if length (su_password (formData st)) < 6 then Some ''Min 6 characters''
      else None)"
  by (simp add: Signup_handleSubmit_def Let_def truthy_def update_conv')

lemma validateForm_email_entry:
  "map_of (errors (validateForm st)) ''email'' =
     (if trim (d_email (formData st)) = [] then Some ''Email is required''
      else if \<not> test email_pattern (d_email (formData st)) then Some ''Please enter a valid email''
      else None)"
  by (simp add: validateForm_def Let_def truthy_def update_conv')

lemma validateForm_password_entry:
  "map_of (errors (validateForm st)) ''password'' =
     (if trim (d_password (formData st)) = [] then Some ''Password is required''
      else if length (d_password (formData st)) < 6
      then Some ''Password must be at least 6 characters''
      else None)"
  by (simp add: validateForm_def Let_def truthy_def update_conv')

lemma validatePasswords_entry:
  "map_of (errors (validatePasswords st)) ''form'' =
     (if trim (pw_form (formData st)) = [] then Some ''Password is required''
      else if length (pw_form (formData st)) < 8
      then Some ''Password must be at least 8 characters''
      else if \<not> test mixed_pattern (pw_form (formData st))
      then Some ''Password must contain uppercase, lowercase, and numbers''
      else None)"
  by (simp add: validatePasswords_def Let_def truthy_def update_conv')

text \<open>
  Claim C6. Submitting the sign-up form with an empty name, an empty email and a
  non-blank password of three characters leaves an error object with exactly three
  entries, for name, email and password in this order, and writes no success message.
\<close>

theorem signup_three_errors:
  "su_name d = [] \<Longrightarrow> su_email d = [] \<Longrightarrow> length (su_password d) = 3 \<Longrightarrow>
   trim (su_password d) \<noteq> [] \<Longrightarrow>
   errors (fst (Signup_handleSubmit \<lparr>formData = d, errors = errs\<rparr>)) =
     [(''name'', ''Name is required''), (''email'', ''Email is required''),
      (''password'', ''Min 6 characters'')] \<and>
   length (map fst (errors (fst (Signup_handleSubmit \<lparr>formData = d, errors = errs\<rparr>)))) = 3 \<and>
   snd (Signup_handleSubmit \<lparr>formData = d, errors = errs\<rparr>) = []"
  by (simp add: Signup_handleSubmit_def Let_def truthy_def trim_def)

theorem signup_three_errors_witness:
  "su_name \<lparr>su_name = [], su_email = [], su_password = utf16 ''abc''\<rparr> = [] \<and>
   su_email \<lparr>su_name = [], su_email = [], su_password = utf16 ''abc''\<rparr> = [] \<and>
   length (su_password \<lparr>su_name = [], su_email = [], su_password = utf16 ''abc''\<rparr>) = 3 \<and>
   trim (su_password \<lparr>su_name = [], su_email = [], su_password = utf16 ''abc''\<rparr>) \<noteq> [] \<and>
   map fst (errors (fst (Signup_handleSubmit
      \<lparr>formData = \<lparr>su_name = [], su_email = [], su_password = utf16 ''abc''\<rparr>, errors = []\<rparr>))) =
     [''name'', ''email'', ''password''] \<and>
   snd (Signup_handleSubmit
      \<lparr>formData = \<lparr>su_name = [], su_email = [], su_password = utf16 ''abc''\<rparr>, errors = []\<rparr>) = []"
proof -
  let ?d = "\<lparr>su_name = [], su_email = [], su_password = utf16 ''abc''\<rparr>"
  have 1: "su_name ?d = []" and 2: "su_email ?d = []" by simp_all
  have 3: "length (su_password ?d) = 3" by (simp add: utf16_def)
  have 4: "trim (su_password ?d) \<noteq> []" by code_simp
  from signup_three_errors[OF 1 2 3 4, of "[]"] 1 2 3 4 show ?thesis by simp
qed

text \<open>
  Claim C8. The email check accepts \<open>john@example.com\<close> and rejects \<open>john\<close>, and
  the validators of the sign-in page and of the input demo leave no email error exactly
  when the value contains the email shape: non-space characters, \<open>@\<close>, non-space
  characters, a full stop, non-space characters. The pattern's test is that shape.
\<close>

theorem email_check:
  "(test email_pattern e \<longleftrightarrow> contains_email_shape e) \<and>
   (map_of (errors (fst (Signin_handleSubmit
        \<lparr>formData = \<lparr>si_email = e, si_password = p\<rparr>, errors = errs\<rparr>))) ''email'' = None
      \<longleftrightarrow> contains_email_shape e) \<and>
   (map_of (errors (validateForm \<lparr>formData = d\<lparr>d_email := e\<rparr>, errors = errs'\<rparr>)) ''email'' = None
      \<longleftrightarrow> contains_email_shape e) \<and>
   map_of (errors (fst (Signin_handleSubmit
        \<lparr>formData = \<lparr>si_email = utf16 ''john@example.com'', si_password = p\<rparr>, errors = errs\<rparr>)))
      ''email'' = None \<and>
   map_of (errors (fst (Signin_handleSubmit
        \<lparr>formData = \<lparr>si_email = utf16 ''john'', si_password = p\<rparr>, errors = errs\<rparr>)))
      ''email'' = Some ''Invalid email'' \<and>
   map_of (errors (validateForm \<lparr>formData = d\<lparr>d_email := utf16 ''john@example.com''\<rparr>, errors = errs'\<rparr>))
      ''email'' = None \<and>
   map_of (errors (validateForm \<lparr>formData = d\<lparr>d_email := utf16 ''john''\<rparr>, errors = errs'\<rparr>))
      ''email'' = Some ''Please enter a valid email''"
proof -
  have j1: "trim (utf16 ''john@example.com'') \<noteq> []" by code_simp
  have j2: "test email_pattern (utf16 ''john@example.com'')" by code_simp
  have j3: "trim (utf16 ''john'') \<noteq> []" by code_simp
  have j4: "\<not> test email_pattern (utf16 ''john'')" by code_simp
  have s: "contains_email_shape e \<Longrightarrow> trim e \<noteq> []"
    by (rule shape_not_blank)
  show ?thesis
    unfolding Signin_email_entry validateForm_email_entry
    using j1 j2 j3 j4 s email_pattern_shape[of e] by auto
qed

theorem email_check_witness:
  "contains_email_shape (utf16 ''john@example.com'') \<and>
   map_of (errors (fst (Signin_handleSubmit
        \<lparr>formData = \<lparr>si_email = utf16 ''john@example.com'', si_password = []\<rparr>, errors = []\<rparr>)))
      ''email'' = None \<and>
   \<not> contains_email_shape (utf16 ''john'')"
proof -
  have j2: "test email_pattern (utf16 ''john@example.com'')" by code_simp
  have j4: "\<not> test email_pattern (utf16 ''john'')" by code_simp
  from email_check[of "utf16 ''john@example.com''" "[]" "[]"] email_check[of "utf16 ''john''"] j2 j4
  show ?thesis by simp
qed

text \<open>
  Claim C1, as amended. The sign-up form and the input demo form use a minimum of six
  characters: a non-blank password shorter than six (so one of length 5) gets their
  too-short message and one of length six or more gets no password error. The sign-in
  form has no minimum-length rule: every non-blank password passes it. The validator of
  the password demo form reports its too-short message exactly below eight characters.
\<close>

theorem password_minimum:
  "trim pw \<noteq> [] \<Longrightarrow>
   map_of (errors (fst (Signup_handleSubmit \<lparr>formData = d1\<lparr>su_password := pw\<rparr>, errors = e1\<rparr>)))
     ''password'' = (if length pw < 6 then Some ''Min 6 characters'' else None) \<and>
   map_of (errors (validateForm \<lparr>formData = d2\<lparr>d_password := pw\<rparr>, errors = e2\<rparr>))
     ''password'' = (if length pw < 6 then Some ''Password must be at least 6 characters'' else None) \<and>
   map_of (errors (fst (Signin_handleSubmit \<lparr>formData = d3\<lparr>si_password := pw\<rparr>, errors = e3\<rparr>)))
     ''password'' = None \<and>
   (map_of (errors (validatePasswords \<lparr>formData = d4\<lparr>pw_form := pw\<rparr>, errors = e4\<rparr>))
     ''form'' = Some ''Password must be at least 8 characters'') = (length pw < 8)"
  unfolding Signup_password_entry validateForm_password_entry Signin_password_entry
    validatePasswords_entry
  by simp

theorem password_minimum_witness:
  "trim (utf16 ''abcde'') \<noteq> [] \<and> trim (utf16 ''abcdef'') \<noteq> [] \<and>
   map_of (errors (fst (Signup_handleSubmit
      \<lparr>formData = \<lparr>su_name = [], su_email = [], su_password = utf16 ''abcde''\<rparr>, errors = []\<rparr>)))
     ''password'' = Some ''Min 6 characters'' \<and>
   map_of (errors (fst (Signup_handleSubmit
      \<lparr>formData = \<lparr>su_name = [], su_email = [], su_password = utf16 ''abcdef''\<rparr>, errors = []\<rparr>)))
     ''password'' = None \<and>
   map_of (errors (fst (Signin_handleSubmit
      \<lparr>formData = \<lparr>si_email = [], si_password = utf16 ''abcde''\<rparr>, errors = []\<rparr>)))
     ''password'' = None"
proof -
  have 5: "trim (utf16 ''abcde'') \<noteq> []" by code_simp
  have 6: "trim (utf16 ''abcdef'') \<noteq> []" by code_simp
  have l5: "length (utf16 ''abcde'') = 5" and l6: "length (utf16 ''abcdef'') = 6"
    by (simp_all add: utf16_def)
  from password_minimum[OF 5, of "\<lparr>su_name = [], su_email = [], su_password = []\<rparr>" "[]"
      _ _ "\<lparr>si_email = [], si_password = []\<rparr>" "[]"]
    password_minimum[OF 6, of "\<lparr>su_name = [], su_email = [], su_password = []\<rparr>" "[]"]
    5 6 l5 l6
  show ?thesis by simp
qed

text \<open>
  Claim C1 as stated fails on the sign-in form: a non-blank password of length 5 is
  accepted there, the error object stays empty and the success message is written.
\<close>

theorem signin_no_minimum_counterexample:
  "length (utf16 ''abcde'') = 5 \<and> trim (utf16 ''abcde'') \<noteq> [] \<and>
   Signin_handleSubmit
     \<lparr>formData = \<lparr>si_email = utf16 ''john@example.com'', si_password = utf16 ''abcde''\<rparr>,
      errors = []\<rparr> =
   (\<lparr>formData = \<lparr>si_email = utf16 ''john@example.com'', si_password = utf16 ''abcde''\<rparr>,
     errors = []\<rparr>,
    [Log (utf16 ''Signin Success '' @ [0x2705])
       \<lparr>si_email = utf16 ''john@example.com'', si_password = utf16 ''abcde''\<rparr>])"
  by code_simp

section \<open>Change events\<close>

lemma update_blank:
  "has_error al k \<Longrightarrow>
   map_of (AList.update k [] al) k = Some [] \<and>
   \<not> has_error (AList.update k [] al) k \<and>
   (\<forall>g. g \<noteq> k \<longrightarrow> map_of (AList.update k [] al) g = map_of al g) \<and>
   (\<forall>g. has_error (AList.update k [] al) g = has_error (AList.delete k al) g)"
  by (simp add: has_error_def truthy_opt_def truthy_def update_conv' delete_conv')

lemma delete_no_error: "\<not> has_error (AList.delete k al) k"
  by (simp add: has_error_def truthy_opt_def delete_conv')

lemma blank_or_keep:
  "(has_error al k \<longrightarrow>
      \<not> has_error (if has_error al k then AList.update k [] al else al) k \<and>
      (\<forall>g. has_error (if has_error al k then AList.update k [] al else al) g =
            has_error (AList.delete k al) g) \<and>
      map_of (if has_error al k then AList.update k [] al else al) k = Some [] \<and>
      (\<forall>g. g \<noteq> k \<longrightarrow>
         map_of (if has_error al k then AList.update k [] al else al) g = map_of al g)) \<and>
   (\<not> has_error al k \<longrightarrow> (if has_error al k then AList.update k [] al else al) = al)"
proof (cases "has_error al k")
  case True
  note u = update_blank[OF True]
  from True u[THEN conjunct1] u[THEN conjunct2, THEN conjunct2, THEN conjunct1]
    u[THEN conjunct2, THEN conjunct2, THEN conjunct2]
  show ?thesis by (simp add: delete_no_error)
next
  case False
  then show ?thesis by simp
qed

text \<open>
  Claim C2. When a field has an error in a page's error map, a change event on that
  field removes the error at once: afterwards the field has no error, and the new map
  reads, at every key, as the old map with that field's entry deleted (the handler
  blanks the entry, which the data model counts as absent). Every other entry is
  unchanged and no validation runs: the new map does not depend on the typed value nor
  on the field values, and a change on a field without an error leaves the map as it
  is. This holds for the sign-in page and for the input demo.
\<close>

theorem change_clears_error:
  "(has_error (errors st) field \<longrightarrow>
      \<not> has_error (errors (Signin_handleChange field v st)) field \<and>
      (\<forall>g. has_error (errors (Signin_handleChange field v st)) g =
            has_error (AList.delete field (errors st)) g) \<and>
      map_of (errors (Signin_handleChange field v st)) field = Some [] \<and>
      (\<forall>g. g \<noteq> field \<longrightarrow>
         map_of (errors (Signin_handleChange field v st)) g = map_of (errors st) g)) \<and>
   (\<not> has_error (errors st) field \<longrightarrow>
      errors (Signin_handleChange field v st) = errors st) \<and>
   errors (Signin_handleChange field v st) =
     errors (Signin_handleChange field v' (st\<lparr>formData := d\<rparr>)) \<and>
   (has_error (errors st') field \<longrightarrow>
      \<not> has_error (errors (handleInputChange field v st')) field \<and>
      (\<forall>g. has_error (errors (handleInputChange field v st')) g =
            has_error (AList.delete field (errors st')) g) \<and>
      map_of (errors (handleInputChange field v st')) field = Some [] \<and>
      (\<forall>g. g \<noteq> field \<longrightarrow>
         map_of (errors (handleInputChange field v st')) g = map_of (errors st') g)) \<and>
   (\<not> has_error (errors st') field \<longrightarrow>
      errors (handleInputChange field v st') = errors st') \<and>
   errors (handleInputChange field v st') =
     errors (handleInputChange field v' (st'\<lparr>formData := d'\<rparr>))"
proof -
  have a: "errors (Signin_handleChange field w s) =
      (if has_error (errors s) field then AList.update field [] (errors s) else errors s)"
    for w s
    by (simp add: Signin_handleChange_def has_error_def)
  have b: "errors (handleInputChange field w s) =
      (if has_error (errors s) field then AList.update field [] (errors s) else errors s)"
    for w s
    by (simp add: handleInputChange_def has_error_def)
  have a3: "errors (Signin_handleChange field v st) =
      errors (Signin_handleChange field v' (st\<lparr>formData := d\<rparr>))"
    by (simp add: a)
  have b3: "errors (handleInputChange field v st') =
      errors (handleInputChange field v' (st'\<lparr>formData := d'\<rparr>))"
    by (simp add: b)
  have A: "(has_error (errors st) field \<longrightarrow>
      \<not> has_error (errors (Signin_handleChange field v st)) field \<and>
      (\<forall>g. has_error (errors (Signin_handleChange field v st)) g =
            has_error (AList.delete field (errors st)) g) \<and>
      map_of (errors (Signin_handleChange field v st)) field = Some [] \<and>
      (\<forall>g. g \<noteq> field \<longrightarrow>
         map_of (errors (Signin_handleChange field v st)) g = map_of (errors st) g)) \<and>
   (\<not> has_error (errors st) field \<longrightarrow>
      errors (Signin_handleChange field v st) = errors st)"
    unfolding a[of v st] by (rule blank_or_keep)
  have B: "(has_error (errors st') field \<longrightarrow>
      \<not> has_error (errors (handleInputChange field v st')) field \<and>
      (\<forall>g. has_error (errors (handleInputChange field v st')) g =
            has_error (AList.delete field (errors st')) g) \<and>
      map_of (errors (handleInputChange field v st')) field = Some [] \<and>
      (\<forall>g. g \<noteq> field \<longrightarrow>
         map_of (errors (handleInputChange field v st')) g = map_of (errors st') g)) \<and>
   (\<not> has_error (errors st') field \<longrightarrow>
      errors (handleInputChange field v st') = errors st')"
    unfolding b[of v st'] by (rule blank_or_keep)
  show ?thesis
    by (intro conjI)
      (rule A[THEN conjunct1], rule A[THEN conjunct2], rule a3,
       rule B[THEN conjunct1], rule B[THEN conjunct2], rule b3)
qed

theorem change_clears_error_witness:
  "has_error (errors
      \<lparr>formData = \<lparr>si_email = utf16 ''john'', si_password = []\<rparr>,
       errors = [(''email'', ''Invalid email'')]\<rparr>) ''email'' \<and>
   \<not> has_error (errors (Signin_handleChange ''email'' (utf16 ''john@'')
      \<lparr>formData = \<lparr>si_email = utf16 ''john'', si_password = []\<rparr>,
       errors = [(''email'', ''Invalid email'')]\<rparr>)) ''email'' \<and>
   has_error (errors
      \<lparr>formData = \<lparr>d_name = [], d_email = [], d_password = utf16 ''abc'', d_search = [],
                   d_message = [], d_website = [], d_phone = []\<rparr>,
       errors = [(''name'', ''Name is required''),
                 (''password'', ''Password must be at least 6 characters'')]\<rparr>) ''password'' \<and>
   \<not> has_error (errors (handleInputChange ''password'' (utf16 ''abcd'')
      \<lparr>formData = \<lparr>d_name = [], d_email = [], d_password = utf16 ''abc'', d_search = [],
                   d_message = [], d_website = [], d_phone = []\<rparr>,
       errors = [(''name'', ''Name is required''),
                 (''password'', ''Password must be at least 6 characters'')]\<rparr>)) ''password''"
proof -
  let ?st = "\<lparr>formData = \<lparr>si_email = utf16 ''john'', si_password = []\<rparr>,
       errors = [(''email'', ''Invalid email'')]\<rparr>"
  let ?st' = "\<lparr>formData = \<lparr>d_name = [], d_email = [], d_password = utf16 ''abc'', d_search = [],
                   d_message = [], d_website = [], d_phone = []\<rparr>,
       errors = [(''name'', ''Name is required''),
                 (''password'', ''Password must be at least 6 characters'')]\<rparr>"
  have h: "has_error (errors ?st) ''email''"
    by (simp add: has_error_def truthy_opt_def truthy_def)
  have h': "has_error (errors ?st') ''password''"
    by (simp add: has_error_def truthy_opt_def truthy_def)
  have 1: "\<not> has_error (errors (Signin_handleChange ''email'' (utf16 ''john@'') ?st)) ''email''"
    by (rule change_clears_error[of ?st "''email''" "utf16 ''john@''",
          THEN conjunct1, THEN mp, OF h, THEN conjunct1])
  have 2: "\<not> has_error (errors (handleInputChange ''password'' (utf16 ''abcd'') ?st')) ''password''"
    by (rule change_clears_error[of _ "''password''" "utf16 ''abcd''" _ _ ?st',
          THEN conjunct2, THEN conjunct2, THEN conjunct2, THEN conjunct1, THEN mp, OF h',
          THEN conjunct1])
  show ?thesis
    by (intro conjI) (rule h, rule 1, rule h', rule 2)
qed

end
